theory Spec2Isabelle
  imports Main "HOL-Library.Word"
begin

section \<open>The wire generator \<open>tools/generate-wire.py\<close>\<close>

text \<open>
  The generator reads CSV lines that describe messages and their fields, builds
  \<open>Message\<close> and \<open>Field\<close> objects and prints C source text. The Python functions are
  embedded as HOL functions: exceptions are values of a sum type, the module-level
  dictionaries are association lists in the order the source writes them (Python
  dictionaries iterate in insertion order), and the global variables a function reads or
  writes are explicit arguments and results.
\<close>

subsection \<open>Python strings and exceptions\<close>

datatype error =
    ValueError string
  | TypeError string
  | AssertionError
  | OverflowError
  | ZeroDivisionError
  | FileNotFoundError string
  | RecursionError

text \<open>\<open>s.startswith(p)\<close> and \<open>s.endswith(p)\<close>.\<close>

definition startswith :: "string \<Rightarrow> string \<Rightarrow> bool" where
  "startswith s p = (take (length p) s = p)"

definition endswith :: "string \<Rightarrow> string \<Rightarrow> bool" where
  "endswith s p = (length p \<le> length s \<and> drop (length s - length p) s = p)"

text \<open>\<open>k in s\<close> on strings: \<open>k\<close> occurs in \<open>s\<close> as a contiguous run.\<close>

fun str_in :: "string \<Rightarrow> string \<Rightarrow> bool" where
  "str_in k [] = (k = [])"
| "str_in k (c # cs) = (startswith (c # cs) k \<or> str_in k cs)"

text \<open>\<open>str(n)\<close> for an integer, as \<open>'{}'.format(n)\<close> prints it.\<close>

definition digit_char :: "nat \<Rightarrow> char" where
  "digit_char d = ''0123456789'' ! d"

fun str_nat :: "nat \<Rightarrow> string" where
  "str_nat n = (if n < 10 then [digit_char n] else str_nat (n div 10) @ [digit_char (n mod 10)])"

declare str_nat.simps [simp del]

definition str_int :: "int \<Rightarrow> string" where
  "str_int i = (if i < 0 then CHR ''-'' # str_nat (nat (- i)) else str_nat (nat i))"

subsection \<open>The type tables\<close>

text \<open>\<open>type2size\<close>, lines 13 to 32.\<close>

definition type2size :: "(string \<times> int) list" where
  "type2size =
    [(''pad'', 1),
     (''struct channel_id'', 32),
     (''struct short_channel_id'', 8),
     (''struct ipv6'', 16),
     (''secp256k1_ecdsa_signature'', 64),
     (''struct preimage'', 32),
     (''struct pubkey'', 33),
     (''struct sha256'', 32),
     (''struct bitcoin_blkid'', 32),
     (''struct bitcoin_txid'', 32),
     (''struct secret'', 32),
     (''struct amount_msat'', 8),
     (''struct amount_sat'', 8),
     (''u64'', 8),
     (''u32'', 4),
     (''u16'', 2),
     (''u8'', 1),
     (''bool'', 1)]"

text \<open>\<open>varlen_structs\<close>, lines 35 to 42.\<close>

definition varlen_structs :: "string list" where
  "varlen_structs =
    [''peer_features'', ''gossip_getnodes_entry'', ''failed_htlc'', ''utxo'',
     ''bitcoin_tx'', ''wirestring'']"

text \<open>Class \<open>FieldType\<close>: an object holding the type's name.\<close>

datatype FieldType = FieldType (tname: string)

definition ft_is_assignable :: "FieldType \<Rightarrow> bool" where
  "ft_is_assignable t =
    (tname t \<in> set [''u8'', ''u16'', ''u32'', ''u64'', ''bool'', ''struct amount_msat'',
                     ''struct amount_sat'']
     \<or> startswith (tname t) ''enum '')"

definition ft_has_array_helper :: "FieldType \<Rightarrow> bool" where
  "ft_has_array_helper t = (tname t \<in> set [''u8''])"

definition base :: "FieldType \<Rightarrow> string" where
  "base t =
    (if startswith (tname t) ''struct '' then drop 7 (tname t)
     else if startswith (tname t) ''enum '' then drop 5 (tname t)
     else tname t)"

definition typesize :: "string \<Rightarrow> error + int" where
  "typesize typename =
    (case map_of type2size typename of
       Some n \<Rightarrow> Inr n
     | None \<Rightarrow>
         if startswith typename ''struct '' \<or> startswith typename ''enum '' then Inr 0
         else Inl (ValueError (''Unknown typename '' @ typename)))"

text \<open>\<open>typemap\<close>, lines 78 to 95: exact (message, field name) entries.\<close>

definition typemap :: "((string \<times> string) \<times> FieldType) list" where
  "typemap =
    [((''update_fail_htlc'', ''reason''), FieldType ''u8''),
     ((''node_announcement'', ''alias''), FieldType ''u8''),
     ((''update_add_htlc'', ''onion_routing_packet''), FieldType ''u8''),
     ((''update_fulfill_htlc'', ''payment_preimage''), FieldType ''struct preimage''),
     ((''error'', ''data''), FieldType ''u8''),
     ((''shutdown'', ''scriptpubkey''), FieldType ''u8''),
     ((''node_announcement'', ''rgb_color''), FieldType ''u8''),
     ((''node_announcement'', ''addresses''), FieldType ''u8''),
     ((''node_announcement'', ''ipv6''), FieldType ''struct ipv6''),
     ((''announcement_signatures'', ''short_channel_id''), FieldType ''struct short_channel_id''),
     ((''channel_announcement'', ''short_channel_id''), FieldType ''struct short_channel_id''),
     ((''channel_update'', ''short_channel_id''), FieldType ''struct short_channel_id''),
     ((''revoke_and_ack'', ''per_commitment_secret''), FieldType ''struct secret''),
     ((''channel_reestablish_option_data_loss_protect'', ''your_last_per_commitment_secret''),
        FieldType ''struct secret''),
     ((''channel_update'', ''fee_base_msat''), FieldType ''u32''),
     ((''final_incorrect_htlc_amount'', ''incoming_htlc_amt''), FieldType ''struct amount_msat'')]"

text \<open>\<open>partialtypemap\<close>, lines 98 to 107: fragments of field names.\<close>

definition partialtypemap :: "(string \<times> FieldType) list" where
  "partialtypemap =
    [(''signature'', FieldType ''secp256k1_ecdsa_signature''),
     (''features'', FieldType ''u8''),
     (''channel_id'', FieldType ''struct channel_id''),
     (''chain_hash'', FieldType ''struct bitcoin_blkid''),
     (''funding_txid'', FieldType ''struct bitcoin_txid''),
     (''pad'', FieldType ''pad''),
     (''msat'', FieldType ''struct amount_msat''),
     (''satoshis'', FieldType ''struct amount_sat'')]"

text \<open>\<open>sizetypemap\<close>, lines 110 to 117: byte sizes.\<close>

definition sizetypemap :: "(int \<times> FieldType) list" where
  "sizetypemap =
    [(33, FieldType ''struct pubkey''),
     (32, FieldType ''struct sha256''),
     (8, FieldType ''u64''),
     (4, FieldType ''u32''),
     (2, FieldType ''u16''),
     (1, FieldType ''u8'')]"

subsection \<open>\<open>Field._guess_type\<close>\<close>

text \<open>
  The loop \<open>for k, v in partialtypemap.items(): if k in fieldname: return v\<close>: the value of
  the first entry whose key occurs in the field name.
\<close>

fun partial_loop :: "(string \<times> FieldType) list \<Rightarrow> string \<Rightarrow> FieldType option" where
  "partial_loop [] fieldname = None"
| "partial_loop ((k, v) # kvs) fieldname =
    (if str_in k fieldname then Some v else partial_loop kvs fieldname)"

text \<open>
  \<open>_guess_type\<close> with the three module-level tables as arguments, and with the tables of
  the source.
\<close>

definition guess_type_in ::
  "((string \<times> string) \<times> FieldType) list \<Rightarrow> (string \<times> FieldType) list \<Rightarrow>
   (int \<times> FieldType) list \<Rightarrow> string \<Rightarrow> string \<Rightarrow> int \<Rightarrow> error + FieldType" where
  "guess_type_in tm ptm stm message fieldname base_size =
    (case map_of tm (message, fieldname) of
       Some t \<Rightarrow> Inr t
     | None \<Rightarrow>
        (case partial_loop ptm fieldname of
           Some v \<Rightarrow> Inr v
         | None \<Rightarrow>
            (case map_of stm base_size of
               Some t \<Rightarrow> Inr t
             | None \<Rightarrow>
                 Inl (ValueError (''Unknown size '' @ str_int base_size @ '' for '' @ fieldname)))))"

definition guess_type :: "string \<Rightarrow> string \<Rightarrow> int \<Rightarrow> error + FieldType" where
  "guess_type = guess_type_in typemap partialtypemap sizetypemap"

subsection \<open>More of Python: \<open>split\<close>, \<open>rstrip\<close>, \<open>int\<close> and true division\<close>

text \<open>\<open>s.split(c)\<close> for a separator of one character: always at least one piece.\<close>

fun split_on :: "char \<Rightarrow> string \<Rightarrow> string list" where
  "split_on c [] = [[]]"
| "split_on c (x # xs) =
    (if x = c then [] # split_on c xs
     else (case split_on c xs of w # ws \<Rightarrow> (x # w) # ws | [] \<Rightarrow> [[x]]))"

text \<open>\<open>sep.join(xs)\<close>.\<close>

fun join :: "string \<Rightarrow> string list \<Rightarrow> string" where
  "join sep [] = []"
| "join sep [x] = x"
| "join sep (x # y # ys) = x @ sep @ join sep (y # ys)"

text \<open>
  The characters \<open>str.isspace\<close> accepts, among the code points below 256 (a HOL character
  is one such code point): tab to carriage return, the four separators 28 to 31, the
  space, and the code points 133 and 160.
\<close>

definition py_isspace :: "char \<Rightarrow> bool" where
  "py_isspace c =
    (let n = (of_char c :: nat)
     in (9 \<le> n \<and> n \<le> 13) \<or> (28 \<le> n \<and> n \<le> 32) \<or> n = 133 \<or> n = 160)"

definition lstrip :: "string \<Rightarrow> string" where
  "lstrip s = dropWhile py_isspace s"

definition rstrip :: "string \<Rightarrow> string" where
  "rstrip s = rev (dropWhile py_isspace (rev s))"

definition strip :: "string \<Rightarrow> string" where
  "strip s = lstrip (rstrip s)"

definition is_digit :: "char \<Rightarrow> bool" where
  "is_digit c = (c \<in> set ''0123456789'')"

definition digit_val :: "char \<Rightarrow> nat" where
  "digit_val c = of_char c - 48"

text \<open>
  The digits of a decimal literal as \<open>int(s)\<close> reads them: digits, with single underscores
  allowed between two digits.
\<close>

fun parse_digits :: "nat \<Rightarrow> bool \<Rightarrow> string \<Rightarrow> nat option" where
  "parse_digits acc prev_digit [] = (if prev_digit then Some acc else None)"
| "parse_digits acc prev_digit (c # cs) =
    (if is_digit c then parse_digits (acc * 10 + digit_val c) True cs
     else if c = CHR ''_'' \<and> prev_digit then parse_digits acc False cs
     else None)"

text \<open>
  \<open>int(s)\<close> for a string, base 10: surrounding white space is dropped, one sign is allowed.
  The message of the \<open>ValueError\<close> quotes the argument (the source never reads it).
\<close>

definition py_int :: "string \<Rightarrow> error + int" where
  "py_int s =
    (let bad = Inl (ValueError (''invalid literal for int() with base 10: '' @ s));
         t = strip s
     in case t of
          [] \<Rightarrow> bad
        | c # cs \<Rightarrow>
           if c = CHR ''-'' then
             (case parse_digits 0 False cs of None \<Rightarrow> bad | Some n \<Rightarrow> Inr (- int n))
           else if c = CHR ''+'' then
             (case parse_digits 0 False cs of None \<Rightarrow> bad | Some n \<Rightarrow> Inr (int n))
           else
             (case parse_digits 0 False t of None \<Rightarrow> bad | Some n \<Rightarrow> Inr (int n)))"

text \<open>
  \<open>a / b\<close> on Python integers is true division: the result is the IEEE double nearest to
  the exact quotient (ties to the even significand), and \<open>OverflowError\<close> when that is
  beyond the range of a double. The source calls it only after checking that
  \<open>a % b == 0\<close>, where the exact quotient is the integer \<open>a div b\<close>; \<open>int(a / b)\<close> is then
  that integer rounded to 53 significant bits.
\<close>

fun bit_length :: "nat \<Rightarrow> nat" where
  "bit_length n = (if n = 0 then 0 else Suc (bit_length (n div 2)))"

declare bit_length.simps [simp del]

definition round53 :: "nat \<Rightarrow> nat" where
  "round53 n =
    (let k = bit_length n
     in if k \<le> 53 then n
        else
          (let sh = k - 53;
               q = n div 2 ^ sh;
               r = n mod 2 ^ sh;
               half = 2 ^ (sh - 1);
               q' = (if half < r \<or> (r = half \<and> odd q) then q + 1 else q)
           in q' * 2 ^ sh))"

definition int_of_truediv :: "int \<Rightarrow> int \<Rightarrow> error + int" where
  "int_of_truediv a b =
    (let q = a div b; m = round53 (nat \<bar>q\<bar>)
     in if 2 ^ 1024 \<le> m then Inl OverflowError
        else Inr (if q < 0 then - int m else int m))"

subsection \<open>Class \<open>Field\<close>\<close>

text \<open>
  The attributes of a \<open>Field\<close> object; \<open>name\<close>, \<open>message\<close>, \<open>comments\<close> and \<open>is_tlv\<close>
  carry the prefix \<open>f_\<close> here, since \<open>Message\<close> has attributes of the same names.
  \<open>lenvar_for\<close> is a reference to another \<open>Field\<close> in the source; of that field only
  \<open>name\<close> and \<open>is_tlv\<close> are ever read, both fixed by its constructor, so the record keeps
  these two values.
\<close>

record Field =
  f_message :: string
  f_comments :: "string list"
  f_name :: string
  is_len_var :: bool
  lenvar :: "string option"
  num_elems :: int
  optional :: bool
  f_is_tlv :: bool
  fieldtype :: FieldType
  lenvar_for :: "(string \<times> bool) option"

record Enumtype =
  e_name :: string
  e_value :: string

record Message =
  m_name :: string
  m_enum :: Enumtype
  m_comments :: "string list"
  m_fields :: "Field list"
  has_variable_fields :: bool
  m_is_tlv :: bool

text \<open>
  The module-level variables that constructing a field reads and writes: the dictionary
  \<open>tlv_fields\<close> and the list \<open>messages_with_option\<close>.
\<close>

record globals =
  tlv_fields :: "(string \<times> Message list) list"
  messages_with_option :: "Message list"

text \<open>\<open>d[k] = v\<close> on a dictionary: an existing key keeps its place.\<close>

fun dict_set :: "('k \<times> 'v) list \<Rightarrow> 'k \<Rightarrow> 'v \<Rightarrow> ('k \<times> 'v) list" where
  "dict_set [] k v = [(k, v)]"
| "dict_set ((k', v') # d) k v = (if k' = k then (k, v) # d else (k', v') # dict_set d k v)"

definition is_padding :: "Field \<Rightarrow> bool" where
  "is_padding f = startswith (f_name f) ''pad''"

definition is_array :: "Field \<Rightarrow> bool" where
  "is_array f = (1 < num_elems f \<or> is_padding f)"

definition is_variable_size :: "Field \<Rightarrow> bool" where
  "is_variable_size f = (lenvar f \<noteq> None)"

definition needs_ptr_to_ptr :: "Field \<Rightarrow> bool" where
  "needs_ptr_to_ptr f = (is_variable_size f \<or> optional f)"

definition is_assignable :: "Field \<Rightarrow> bool" where
  "is_assignable f =
    (if is_array f \<or> needs_ptr_to_ptr f then False else ft_is_assignable (fieldtype f))"

definition has_array_helper :: "Field \<Rightarrow> bool" where
  "has_array_helper f = ft_has_array_helper (fieldtype f)"

text \<open>
  \<open>Field.__init__\<close>, lines 149 to 163: what the size token says before any type is looked
  up. The result is \<open>(optional, lenvar, num_elems, size)\<close> as they stand at line 165 (the argument
  \<open>size\<close> is \<open>size_tok\<close> here).
\<close>

definition size_prefix ::
  "bool \<Rightarrow> string \<Rightarrow> string option \<Rightarrow> error + (bool \<times> string option \<times> int \<times> string)" where
  "size_prefix bolt size_tok prevname =
    (if startswith size_tok ''?'' then Inr (True, None, 1, drop 1 size_tok)
     else if CHR ''*'' \<in> set size_tok then
       (let number = split_on CHR ''*'' size_tok ! 0;
            rest = split_on CHR ''*'' size_tok ! 1
        in if Some number = prevname then Inr (False, Some number, 1, rest)
           else (case py_int number of
                   Inl e \<Rightarrow> Inl e
                 | Inr n \<Rightarrow> Inr (False, None, n, rest)))
     else if bolt \<and> Some size_tok = prevname then Inr (False, Some size_tok, 1, ''1'')
     else Inr (False, None, 1, size_tok))"

text \<open>
  Lines 165 to 180: in bolt mode the size is a number of bytes and the type is guessed;
  otherwise the size is the name of the type. The result is \<open>(fieldtype, num_elems)\<close>.
\<close>

definition size_type ::
  "bool \<Rightarrow> string \<Rightarrow> string \<Rightarrow> int \<Rightarrow> string \<Rightarrow> error + (FieldType \<times> int)" where
  "size_type bolt message nm elems size_tok =
    (if bolt then
       (case py_int size_tok of
          Inl e \<Rightarrow> Inl e
        | Inr base_size \<Rightarrow>
           (case guess_type message nm base_size of
              Inl e \<Rightarrow> Inl e
            | Inr ft \<Rightarrow>
               (case typesize (tname ft) of
                  Inl e \<Rightarrow> Inl e
                | Inr tsize \<Rightarrow>
                   if tsize = 0 then Inl ZeroDivisionError
                   else if base_size mod tsize \<noteq> 0 then
                     Inl (ValueError (''Invalid size '' @ str_int base_size @ '' for ''
                            @ message @ ''.'' @ nm @ '' not a multiple of '' @ str_int tsize))
                   else (case int_of_truediv base_size tsize of
                           Inl e \<Rightarrow> Inl e
                         | Inr n \<Rightarrow> Inr (ft, n)))))
     else Inr (FieldType size_tok, elems))"

text \<open>
  Lines 140 to 146 of \<open>Field.__init__\<close>: a field whose name ends in \<open>+\<close> holds a TLV; its
  file is read unless \<open>tlv_fields\<close> has the name already. \<open>parse_tlv\<close> stands for the
  call of \<open>parse_tlv_file\<close> at line 145 and returns the messages of the included file.
\<close>

definition load_tlv_field ::
  "(string \<Rightarrow> globals \<Rightarrow> error + (Message list \<times> globals)) \<Rightarrow> globals \<Rightarrow> string \<Rightarrow>
   error + globals" where
  "load_tlv_field parse_tlv g name0 =
    (if endswith name0 ''+'' \<and> butlast name0 \<notin> fst ` set (tlv_fields g) then
       (case parse_tlv (butlast name0) g of
          Inl e \<Rightarrow> Inl e
        | Inr (tlv_messages, g') \<Rightarrow>
            Inr (g'\<lparr>tlv_fields := dict_set (tlv_fields g') (butlast name0) tlv_messages\<rparr>))
     else Inr g)"

text \<open>\<open>Field.__init__\<close>; \<open>bolt\<close> is \<open>options.bolt\<close>.\<close>

definition Field_init ::
  "bool \<Rightarrow> (string \<Rightarrow> globals \<Rightarrow> error + (Message list \<times> globals)) \<Rightarrow> globals \<Rightarrow>
   string \<Rightarrow> string \<Rightarrow> string \<Rightarrow> string list \<Rightarrow> string option \<Rightarrow> error + (Field \<times> globals)" where
  "Field_init bolt parse_tlv g message name0 size_tok comments prevname =
    (let tlv = endswith name0 ''+'';
         nm = (if tlv then butlast name0 else name0)
     in case load_tlv_field parse_tlv g name0 of
          Inl e \<Rightarrow> Inl e
        | Inr g1 \<Rightarrow>
           (case size_prefix bolt size_tok prevname of
              Inl e \<Rightarrow> Inl e
            | Inr (opt, lv, elems, size_tok') \<Rightarrow>
               (case size_type bolt message nm elems size_tok' of
                  Inl e \<Rightarrow> Inl e
                | Inr (ft, n) \<Rightarrow>
                   Inr (\<lparr>f_message = message, f_comments = comments, f_name = nm,
                         is_len_var = False, lenvar = lv, num_elems = n, optional = opt,
                         f_is_tlv = tlv, fieldtype = ft, lenvar_for = None\<rparr>, g1))))"

subsection \<open>Class \<open>Message\<close>: \<open>checkLenField\<close> and \<open>addField\<close>\<close>

text \<open>\<open>'{}'.format(x)\<close> for an attribute that is a string or \<open>None\<close>.\<close>

definition str_opt :: "string option \<Rightarrow> string" where
  "str_opt x = (case x of None \<Rightarrow> ''None'' | Some s \<Rightarrow> s)"

text \<open>
  The loop of \<open>checkLenField\<close> over \<open>self.fields\<close>: the first field whose name is the length
  variable is checked and marked; running off the end raises.
\<close>

fun checkLenField_loop :: "bool \<Rightarrow> Field \<Rightarrow> Field list \<Rightarrow> error + Field list" where
  "checkLenField_loop bolt field [] =
    Inl (ValueError (''Field '' @ f_name field @ '' unknown length variable ''
           @ str_opt (lenvar field)))"
| "checkLenField_loop bolt field (f # fs) =
    (if Some (f_name f) = lenvar field then
       (if tname (fieldtype f) \<noteq> ''u16'' \<and> bolt then
          Inl (ValueError (''Field '' @ f_name field @ '' has non-u16 length variable ''
                 @ str_opt (lenvar field) @ '' (type '' @ tname (fieldtype f) @ '')''))
        else if is_array f \<or> needs_ptr_to_ptr f then
          Inl (ValueError (''Field '' @ f_name field @ '' has non-simple length variable ''
                 @ str_opt (lenvar field)))
        else Inr (f\<lparr>is_len_var := True,
                     lenvar_for := Some (f_name field, f_is_tlv field)\<rparr> # fs))
     else (case checkLenField_loop bolt field fs of
             Inl e \<Rightarrow> Inl e
           | Inr fs' \<Rightarrow> Inr (f # fs')))"

definition checkLenField :: "bool \<Rightarrow> Field list \<Rightarrow> Field \<Rightarrow> error + Field list" where
  "checkLenField bolt flds field =
    (if optional field then Inr flds else checkLenField_loop bolt field flds)"

definition addField :: "bool \<Rightarrow> Message \<Rightarrow> Field \<Rightarrow> error + Message" where
  "addField bolt self field =
    (if is_variable_size field then
       (case checkLenField bolt (m_fields self) field of
          Inl e \<Rightarrow> Inl e
        | Inr fs \<Rightarrow> Inr (self\<lparr>m_fields := fs @ [field], has_variable_fields := True\<rparr>))
     else if base (fieldtype field) \<in> set varlen_structs \<or> optional field then
       Inr (self\<lparr>m_fields := m_fields self @ [field], has_variable_fields := True\<rparr>)
     else Inr (self\<lparr>m_fields := m_fields self @ [field]\<rparr>))"

subsection \<open>Reading the CSV lines\<close>

text \<open>
  \<open>find_message\<close> returns a reference to the first message of that name; the model returns
  its index in the list, since the caller goes on to change the message in place.
\<close>

fun find_message :: "Message list \<Rightarrow> string \<Rightarrow> nat option" where
  "find_message [] nm = None"
| "find_message (m # ms) nm =
    (if m_name m = nm then Some 0 else map_option Suc (find_message ms nm))"

text \<open>\<open>s.replace('-', '_')\<close> and \<open>s.upper()\<close> (on the letters a to z).\<close>

definition replace_dash :: "string \<Rightarrow> string" where
  "replace_dash s = map (\<lambda>c. if c = CHR ''-'' then CHR ''_'' else c) s"

definition upper_char :: "char \<Rightarrow> char" where
  "upper_char c =
    (let n = (of_char c :: nat) in if 97 \<le> n \<and> n \<le> 122 then char_of (n - 32) else c)"

definition upper :: "string \<Rightarrow> string" where
  "upper s = map upper_char s"

text \<open>
  \<open>find_message_with_option\<close>: the index, in \<open>optional_messages\<close>, of the message named
  \<open>name_option\<close>; a copy of the base message is appended under that name when there is
  none yet.
\<close>

definition find_message_with_option ::
  "Message list \<Rightarrow> Message list \<Rightarrow> string \<Rightarrow> string \<Rightarrow> error + (nat \<times> Message list)" where
  "find_message_with_option messages optional_messages nm option =
    (let fullname = nm @ ''_'' @ replace_dash option
     in case find_message messages nm of
          None \<Rightarrow> Inl (ValueError (''Unknown message '' @ nm))
        | Some b \<Rightarrow>
           (case find_message optional_messages fullname of
              Some i \<Rightarrow> Inr (i, optional_messages)
            | None \<Rightarrow>
               Inr (length optional_messages,
                    optional_messages @ [(messages ! b)\<lparr>m_name := fullname\<rparr>])))"

text \<open>
  The variables of the loop over the lines: the main loop (lines 1025 to 1066) has
  \<open>messages\<close>, \<open>comments\<close>, \<open>includes\<close> and \<open>prevfield\<close>; the loop of \<open>parse_tlv_file\<close>
  (lines 960 to 1003) has \<open>tlv_messages\<close>, \<open>tlv_comments\<close>, \<open>tlv_includes\<close> and
  \<open>tlv_prevfield\<close>. Both also reach the module-level \<open>globals\<close>.
\<close>

record loop_state =
  ls_messages :: "Message list"
  ls_comments :: "string list"
  ls_includes :: "string list"
  ls_prevfield :: "string option"
  ls_globals :: globals

text \<open>Where the message \<open>m\<close> of a field line lives.\<close>

datatype place = InMessages nat | InOptional nat

text \<open>
  One round of the loop is split in three here. The two loops of the source have the same
  body but for the prefix \<open>enum_prefix\<close> of the enumeration name (\<open>WIRE_\<close> or \<open>TLV_\<close>) and
  the flag \<open>is_tlv\<close> of the messages they create, which are arguments.

  \<open>locate_message\<close> is lines 1047 to 1058 (984 to 995): the message \<open>m\<close> that a field line
  names, by its place.
\<close>

definition locate_message ::
  "string \<Rightarrow> string list \<Rightarrow> Message list \<Rightarrow> globals \<Rightarrow> error + (place \<times> globals)" where
  "locate_message line parts messages g =
    (if length parts = 4 then
       (case find_message messages (parts ! 0) of
          None \<Rightarrow> Inl (ValueError (''Unknown message '' @ parts ! 0))
        | Some i \<Rightarrow> Inr (InMessages i, g))
     else if length parts = 5 then
       (case find_message_with_option messages (messages_with_option g) (parts ! 0)
               (parts ! 4) of
          Inl e \<Rightarrow> Inl e
        | Inr (i, opt) \<Rightarrow> Inr (InOptional i, g\<lparr>messages_with_option := opt\<rparr>))
     else Inl (ValueError (''Line '' @ rstrip line @ '' malformed'')))"

text \<open>
  \<open>add_field_line\<close> is lines 1060 to 1066 (997 to 1003): the field is constructed and
  added to \<open>m\<close>, and \<open>prevfield\<close> becomes the field's name unless the field took a
  length variable. The message \<open>m\<close> is read again after the field is constructed, since
  constructing a field can load an included file, which can add fields to the messages of
  \<open>messages_with_option\<close>.
\<close>

definition add_field_line ::
  "bool \<Rightarrow> (string \<Rightarrow> globals \<Rightarrow> error + (Message list \<times> globals)) \<Rightarrow> string list \<Rightarrow>
   place \<Rightarrow> globals \<Rightarrow> loop_state \<Rightarrow> error + loop_state" where
  "add_field_line bolt parse_tlv parts pl g st1 =
    (let mname = (case pl of InMessages i \<Rightarrow> m_name (ls_messages st1 ! i)
                           | InOptional i \<Rightarrow> m_name (messages_with_option g ! i))
     in case Field_init bolt parse_tlv g mname (parts ! 2) (parts ! 3) (ls_comments st1)
               (ls_prevfield st1) of
          Inl e \<Rightarrow> Inl e
        | Inr (f, g') \<Rightarrow>
           (let m = (case pl of InMessages i \<Rightarrow> ls_messages st1 ! i
                             | InOptional i \<Rightarrow> messages_with_option g' ! i)
            in case addField bolt m f of
                 Inl e \<Rightarrow> Inl e
               | Inr m' \<Rightarrow>
                  (let st2 = (case pl of
                          InMessages i \<Rightarrow>
                            st1\<lparr>ls_messages := (ls_messages st1)[i := m'], ls_globals := g'\<rparr>
                        | InOptional i \<Rightarrow>
                            st1\<lparr>ls_globals := g'\<lparr>messages_with_option :=
                                   (messages_with_option g')[i := m']\<rparr>\<rparr>);
                       prev = (if lenvar f = None \<or> lenvar f = Some [] then Some (parts ! 2)
                               else ls_prevfield st1)
                   in Inr (st2\<lparr>ls_prevfield := prev, ls_comments := []\<rparr>))))"

text \<open>\<open>csv_line\<close> is the whole round, lines 1026 to 1066 (961 to 1003).\<close>

definition csv_line ::
  "bool \<Rightarrow> (string \<Rightarrow> globals \<Rightarrow> error + (Message list \<times> globals)) \<Rightarrow> string \<Rightarrow> bool \<Rightarrow>
   string \<Rightarrow> loop_state \<Rightarrow> error + loop_state" where
  "csv_line bolt parse_tlv enum_prefix tlv line st =
    (if startswith line ''#include '' then Inr (st\<lparr>ls_includes := ls_includes st @ [line]\<rparr>)
     else
      (let by_comments = split_on CHR ''#'' (rstrip line);
           comments = (if tl by_comments \<noteq> [] then ls_comments st @ [join '' '' (tl by_comments)]
                       else ls_comments st);
           parts = split_on CHR '','' (hd by_comments);
           st1 = st\<lparr>ls_comments := comments\<rparr>
       in if parts = [[]] then Inr st1
          else if length parts = 2 then
            Inr (st1\<lparr>ls_messages := ls_messages st1 @
                        [\<lparr>m_name = parts ! 0,
                          m_enum = \<lparr>e_name = enum_prefix @ upper (parts ! 0), e_value = parts ! 1\<rparr>,
                          m_comments = comments, m_fields = [], has_variable_fields = False,
                          m_is_tlv = tlv\<rparr>],
                     ls_comments := [], ls_prevfield := None\<rparr>)
          else
           (case locate_message line parts (ls_messages st1) (ls_globals st1) of
              Inl e \<Rightarrow> Inl e
            | Inr (pl, g) \<Rightarrow> add_field_line bolt parse_tlv parts pl g st1)))"

text \<open>The loop: the lines in order, stopping at the first exception.\<close>

fun csv_lines ::
  "bool \<Rightarrow> (string \<Rightarrow> globals \<Rightarrow> error + (Message list \<times> globals)) \<Rightarrow> string \<Rightarrow> bool \<Rightarrow>
   string list \<Rightarrow> loop_state \<Rightarrow> error + loop_state" where
  "csv_lines bolt parse_tlv enum_prefix tlv [] st = Inr st"
| "csv_lines bolt parse_tlv enum_prefix tlv (line # ls) st =
    (case csv_line bolt parse_tlv enum_prefix tlv line st of
       Inl e \<Rightarrow> Inl e
     | Inr st' \<Rightarrow> csv_lines bolt parse_tlv enum_prefix tlv ls st')"

definition get_directory_prefix :: string where
  "get_directory_prefix = ''wire/''"

definition get_tlv_filename :: "string \<Rightarrow> string" where
  "get_tlv_filename field_name = ''gen_'' @ field_name @ ''_csv''"

text \<open>
  \<open>parse_tlv_file\<close>. The file system is the argument \<open>files\<close>, from a path to the lines of
  the file (each with its line end, as iterating over the file gives them). A field of an
  included file can include a file in turn, so \<open>Field.__init__\<close> and \<open>parse_tlv_file\<close>
  call each other; the first argument bounds the depth of these calls, as the
  interpreter's recursion limit does, and \<open>RecursionError\<close> is the result beyond it.
\<close>

primrec parse_tlv_file ::
  "nat \<Rightarrow> bool \<Rightarrow> (string \<Rightarrow> string list option) \<Rightarrow> string \<Rightarrow> globals \<Rightarrow>
   error + (Message list \<times> globals)" where
  "parse_tlv_file 0 bolt files tlv_field_name g = Inl RecursionError"
| "parse_tlv_file (Suc depth) bolt files tlv_field_name g =
    (let path = get_directory_prefix @ get_tlv_filename tlv_field_name
     in case files path of
          None \<Rightarrow> Inl (FileNotFoundError path)
        | Some ls \<Rightarrow>
           (case csv_lines bolt (parse_tlv_file depth bolt files) ''TLV_'' True ls
                   \<lparr>ls_messages = [], ls_comments = [], ls_includes = [],
                    ls_prevfield = None, ls_globals = g\<rparr> of
              Inl e \<Rightarrow> Inl e
            | Inr st \<Rightarrow> Inr (ls_messages st, ls_globals st)))"

text \<open>
  The main loop, lines 1017 to 1066: all module-level variables start empty, and the
  lines of the input files are read in order.
\<close>

definition main_loop ::
  "nat \<Rightarrow> bool \<Rightarrow> (string \<Rightarrow> string list option) \<Rightarrow> string list \<Rightarrow> error + loop_state" where
  "main_loop depth bolt files ls =
    csv_lines bolt (parse_tlv_file depth bolt files) ''WIRE_'' False ls
      \<lparr>ls_messages = [], ls_comments = [], ls_includes = [], ls_prevfield = None,
       ls_globals = \<lparr>tlv_fields = [], messages_with_option = []\<rparr>\<rparr>"

subsection \<open>Reading off what was built\<close>

text \<open>
  The attributes of a field that its size token decides, and these attributes of all
  fields of the first message of a run, for stating examples briefly. \<open>no_files\<close> is a
  file system without any file.
\<close>

definition field_summary :: "Field \<Rightarrow> string \<times> string option \<times> int" where
  "field_summary f = (f_name f, lenvar f, num_elems f)"

definition first_message_fields :: "loop_state \<Rightarrow> (string \<times> string option \<times> int) list" where
  "first_message_fields st = map field_summary (m_fields (hd (ls_messages st)))"

definition no_files :: "string \<Rightarrow> string list option" where
  "no_files path = None"

section \<open>Properties\<close>

subsection \<open>Facts about the string helpers\<close>

lemma startswith_iff: "startswith s p \<longleftrightarrow> (\<exists>r. s = p @ r)"
proof
  assume "startswith s p"
  then have "s = p @ drop (length p) s"
    unfolding startswith_def by (metis append_take_drop_id)
  then show "\<exists>r. s = p @ r" ..
next
  assume "\<exists>r. s = p @ r"
  then show "startswith s p" unfolding startswith_def by auto
qed

lemma str_in_iff: "str_in k s \<longleftrightarrow> (\<exists>a b. s = a @ k @ b)"
proof (induction s)
  case Nil
  then show ?case by auto
next
  case (Cons c cs)
  show ?case
  proof
    assume "str_in k (c # cs)"
    then consider "startswith (c # cs) k" | "str_in k cs" by auto
    then show "\<exists>a b. c # cs = a @ k @ b"
    proof cases
      case 1
      then obtain r where "c # cs = k @ r" using startswith_iff by blast
      then have "c # cs = [] @ k @ r" by simp
      then show ?thesis by blast
    next
      case 2
      then obtain a b where "cs = a @ k @ b" using Cons.IH by blast
      then have "c # cs = (c # a) @ k @ b" by simp
      then show ?thesis by blast
    qed
  next
    assume "\<exists>a b. c # cs = a @ k @ b"
    then obtain a b where ab: "c # cs = a @ k @ b" by blast
    show "str_in k (c # cs)"
    proof (cases a)
      case Nil
      with ab have "startswith (c # cs) k" using startswith_iff by auto
      then show ?thesis by simp
    next
      case (Cons a0 as)
      with ab have "cs = as @ k @ b" by simp
      then have "str_in k cs" using Cons.IH by blast
      then show ?thesis by simp
    qed
  qed
qed

subsection \<open>Type inference in three tiers\<close>

lemma partial_loop_None:
  "partial_loop ptm f = None \<longleftrightarrow> (\<forall>(k, v) \<in> set ptm. \<not> str_in k f)"
  by (induction ptm f rule: partial_loop.induct) auto

lemma partial_loop_first:
  assumes "i < length ptm"
    and "str_in (fst (ptm ! i)) f"
    and "\<forall>j < i. \<not> str_in (fst (ptm ! j)) f"
  shows "partial_loop ptm f = Some (snd (ptm ! i))"
  using assms
proof (induction ptm f arbitrary: i rule: partial_loop.induct)
  case (1 fieldname)
  then show ?case by simp
next
  case (2 k v kvs fieldname)
  show ?case
  proof (cases i)
    case 0
    with 2 show ?thesis by simp
  next
    case (Suc n)
    with 2 have nk: "\<not> str_in k fieldname" by force
    have "n < length kvs" using 2 Suc by simp
    moreover have "str_in (fst (kvs ! n)) fieldname" using 2 Suc by simp
    moreover have "\<forall>j < n. \<not> str_in (fst (kvs ! j)) fieldname"
    proof (intro allI impI)
      fix j assume "j < n"
      then have "Suc j < i" using Suc by simp
      then have "\<not> str_in (fst (((k, v) # kvs) ! Suc j)) fieldname" using 2 by blast
      then show "\<not> str_in (fst (kvs ! j)) fieldname" by simp
    qed
    ultimately have "partial_loop kvs fieldname = Some (snd (kvs ! n))"
      using 2 nk by blast
    with nk Suc show ?thesis by simp
  qed
qed

text \<open>
  Claim C1. Type inference is a function of the three tables, the message name, the field
  name and the byte size, and it applies three tiers in strict priority: an entry of the
  override table for exactly (message, field name) wins; otherwise the first entry of the
  partial-name table (in table order) whose key occurs in the field name wins; otherwise
  the entry of the size table for the byte size is taken; and when no tier matches the
  result is the unknown-size error.
\<close>

theorem guess_type_three_tiers:
  "(map_of tm (m, f) = Some t \<longrightarrow> guess_type_in tm ptm stm m f s = Inr t)
   \<and> (map_of tm (m, f) = None \<and> i < length ptm \<and> (\<exists>a b. f = a @ fst (ptm ! i) @ b)
        \<and> (\<forall>j < i. \<not> (\<exists>a b. f = a @ fst (ptm ! j) @ b))
      \<longrightarrow> guess_type_in tm ptm stm m f s = Inr (snd (ptm ! i)))
   \<and> (map_of tm (m, f) = None \<and> (\<forall>(k, v) \<in> set ptm. \<not> (\<exists>a b. f = a @ k @ b))
        \<and> map_of stm s = Some t
      \<longrightarrow> guess_type_in tm ptm stm m f s = Inr t)
   \<and> (map_of tm (m, f) = None \<and> (\<forall>(k, v) \<in> set ptm. \<not> (\<exists>a b. f = a @ k @ b))
        \<and> map_of stm s = None
      \<longrightarrow> guess_type_in tm ptm stm m f s
            = Inl (ValueError (''Unknown size '' @ str_int s @ '' for '' @ f)))"
proof (intro conjI impI)
  assume "map_of tm (m, f) = Some t"
  then show "guess_type_in tm ptm stm m f s = Inr t"
    by (simp add: guess_type_in_def)
next
  assume h: "map_of tm (m, f) = None \<and> i < length ptm \<and> (\<exists>a b. f = a @ fst (ptm ! i) @ b)
        \<and> (\<forall>j < i. \<not> (\<exists>a b. f = a @ fst (ptm ! j) @ b))"
  then have "partial_loop ptm f = Some (snd (ptm ! i))"
    using partial_loop_first [of i ptm f] by (simp add: str_in_iff)
  with h show "guess_type_in tm ptm stm m f s = Inr (snd (ptm ! i))"
    by (simp add: guess_type_in_def)
next
  assume h: "map_of tm (m, f) = None \<and> (\<forall>(k, v) \<in> set ptm. \<not> (\<exists>a b. f = a @ k @ b))
        \<and> map_of stm s = Some t"
  then have "partial_loop ptm f = None"
    by (simp add: partial_loop_None str_in_iff)
  with h show "guess_type_in tm ptm stm m f s = Inr t"
    by (simp add: guess_type_in_def)
next
  assume h: "map_of tm (m, f) = None \<and> (\<forall>(k, v) \<in> set ptm. \<not> (\<exists>a b. f = a @ k @ b))
        \<and> map_of stm s = None"
  then have "partial_loop ptm f = None"
    by (simp add: partial_loop_None str_in_iff)
  with h show "guess_type_in tm ptm stm m f s
            = Inl (ValueError (''Unknown size '' @ str_int s @ '' for '' @ f))"
    by (simp add: guess_type_in_def)
qed

theorem guess_type_three_tiers_witness:
  "guess_type ''channel_update'' ''fee_base_msat'' 4 = Inr (FieldType ''u32'')
   \<and> guess_type ''open_channel'' ''htlc_msat_features'' 8 = Inr (FieldType ''u8'')
   \<and> guess_type ''open_channel'' ''funding_pubkey'' 33 = Inr (FieldType ''struct pubkey'')
   \<and> guess_type ''open_channel'' ''foo'' 5 = Inl (ValueError ''Unknown size 5 for foo'')"
proof -
  have t1: "map_of typemap (''channel_update'', ''fee_base_msat'') = Some (FieldType ''u32'')"
    by (simp add: typemap_def)
  have n: "map_of typemap (''open_channel'', ''htlc_msat_features'') = None"
    "map_of typemap (''open_channel'', ''funding_pubkey'') = None"
    "map_of typemap (''open_channel'', ''foo'') = None"
    by (simp_all add: typemap_def)
  have i: "(1::nat) < length partialtypemap" by (simp add: partialtypemap_def)
  have hit: "\<exists>a b. ''htlc_msat_features'' = a @ fst (partialtypemap ! 1) @ b"
    unfolding str_in_iff [symmetric] by (simp add: partialtypemap_def startswith_def)
  have first: "\<forall>j<1. \<not> (\<exists>a b. ''htlc_msat_features'' = a @ fst (partialtypemap ! j) @ b)"
    unfolding str_in_iff [symmetric] by (simp add: partialtypemap_def startswith_def)
  have miss: "\<forall>(k, v) \<in> set partialtypemap. \<not> (\<exists>a b. ''funding_pubkey'' = a @ k @ b)"
    "\<forall>(k, v) \<in> set partialtypemap. \<not> (\<exists>a b. ''foo'' = a @ k @ b)"
    unfolding str_in_iff [symmetric] by (simp_all add: partialtypemap_def startswith_def)
  have sz: "map_of sizetypemap 33 = Some (FieldType ''struct pubkey'')"
    "map_of sizetypemap 5 = None"
    by (simp_all add: sizetypemap_def)
  have five: "str_int 5 = ''5''" by (simp add: str_int_def str_nat.simps digit_char_def)
  show ?thesis
    using t1 n i hit first miss sz five
      guess_type_three_tiers [where tm = typemap and m = "''channel_update''"
        and f = "''fee_base_msat''" and t = "FieldType ''u32''" and ptm = partialtypemap
        and stm = sizetypemap and s = 4]
      guess_type_three_tiers [where tm = typemap and m = "''open_channel''"
        and f = "''htlc_msat_features''" and ptm = partialtypemap and stm = sizetypemap
        and s = 8 and i = 1]
      guess_type_three_tiers [where tm = typemap and m = "''open_channel''"
        and f = "''funding_pubkey''" and ptm = partialtypemap and stm = sizetypemap
        and s = 33 and t = "FieldType ''struct pubkey''"]
      guess_type_three_tiers [where tm = typemap and m = "''open_channel''" and f = "''foo''"
        and ptm = partialtypemap and stm = sizetypemap and s = 5]
    by (simp add: guess_type_def partialtypemap_def)
qed

subsection \<open>The element count of a field in bolt mode\<close>

lemma bit_length_le: "n < 2 ^ k \<Longrightarrow> bit_length n \<le> k"
proof (induction k arbitrary: n)
  case 0
  then show ?case by (simp add: bit_length.simps)
next
  case (Suc k)
  show ?case
  proof (cases "n = 0")
    case True
    then show ?thesis by (simp add: bit_length.simps)
  next
    case False
    have "n div 2 < 2 ^ k" using Suc.prems by auto
    then have "bit_length (n div 2) \<le> k" by (rule Suc.IH)
    with False show ?thesis by (subst bit_length.simps) simp
  qed
qed

lemma bit_length_ge: "2 ^ k \<le> n \<Longrightarrow> k < bit_length n"
proof (induction k arbitrary: n)
  case 0
  then show ?case by (subst bit_length.simps) simp
next
  case (Suc k)
  then have "2 ^ k \<le> n div 2" by auto
  then have "k < bit_length (n div 2)" by (rule Suc.IH)
  moreover have "n \<noteq> 0"
  proof
    assume "n = 0"
    with Suc.prems have "(2::nat) ^ Suc k \<le> 0" by simp
    then show False by simp
  qed
  ultimately show ?case by (subst bit_length.simps) simp
qed

lemma round53_small: "n < 2 ^ 53 \<Longrightarrow> round53 n = n"
  using bit_length_le [of n 53] by (simp add: round53_def)

lemma int_of_truediv_small:
  assumes "\<bar>a div b\<bar> < 2 ^ 53"
  shows "int_of_truediv a b = Inr (a div b)"
proof -
  let ?m = "nat \<bar>a div b\<bar>"
  have m: "?m < 2 ^ 53" using assms by (simp add: nat_less_iff)
  then have r: "round53 ?m = ?m" by (rule round53_small)
  have "(2::nat) ^ 53 < 2 ^ 1024" by simp
  with m have "\<not> (2::nat) ^ 1024 \<le> ?m" by linarith
  with r show ?thesis by (auto simp: int_of_truediv_def Let_def)
qed

text \<open>Every type the three tables can give has a positive size in \<open>type2size\<close>.\<close>

lemma partial_loop_in: "partial_loop ptm f = Some v \<Longrightarrow> v \<in> snd ` set ptm"
  by (induction ptm f rule: partial_loop.induct) (auto split: if_splits)

lemma guess_type_typesize:
  assumes "guess_type m f s = Inr ft"
  shows "\<exists>ts. typesize (tname ft) = Inr ts \<and> 0 < ts"
proof -
  have "ft \<in> snd ` set typemap \<union> snd ` set partialtypemap \<union> snd ` set sizetypemap"
    using assms unfolding guess_type_def guess_type_in_def
    by (auto split: option.splits dest: map_of_SomeD partial_loop_in intro: rev_image_eqI)
  then have "tname ft \<in> set [''u8'', ''struct preimage'', ''struct ipv6'',
      ''struct short_channel_id'', ''struct secret'', ''u32'', ''struct amount_msat'',
      ''secp256k1_ecdsa_signature'', ''struct channel_id'', ''struct bitcoin_blkid'',
      ''struct bitcoin_txid'', ''pad'', ''struct amount_sat'', ''struct pubkey'',
      ''struct sha256'', ''u64'', ''u16'']"
    by (auto simp: typemap_def partialtypemap_def sizetypemap_def)
  then show ?thesis
    by (auto simp: typesize_def type2size_def)
qed

text \<open>
  In bolt mode a byte count that the width of the guessed type does not divide is
  refused, and a byte count it divides gives the exact quotient as long as that quotient
  is below \<open>2 ^ 53\<close> in magnitude.
\<close>

lemma size_type_bolt_invalid:
  assumes "py_int size_tok = Inr b" and "guess_type message nm b = Inr ft"
    and "typesize (tname ft) = Inr ts" and "b mod ts \<noteq> 0"
  shows "size_type True message nm elems size_tok =
    Inl (ValueError (''Invalid size '' @ str_int b @ '' for '' @ message @ ''.'' @ nm
           @ '' not a multiple of '' @ str_int ts))"
proof -
  have "0 < ts" using guess_type_typesize [OF assms(2)] assms(3) by auto
  then have "ts \<noteq> 0" by simp
  with assms show ?thesis by (simp add: size_type_def)
qed

lemma size_type_bolt_exact:
  assumes "py_int size_tok = Inr b" and "guess_type message nm b = Inr ft"
    and "typesize (tname ft) = Inr ts" and "b mod ts = 0" and "\<bar>b div ts\<bar> < 2 ^ 53"
  shows "size_type True message nm elems size_tok = Inr (ft, b div ts)"
proof -
  have "0 < ts" using guess_type_typesize [OF assms(2)] assms(3) by auto
  then have "ts \<noteq> 0" by simp
  with assms int_of_truediv_small [OF assms(5)] show ?thesis
    by (simp add: size_type_def)
qed

lemma bit_length_example: "bit_length 9007199254740993 = 54"
proof -
  have "bit_length 9007199254740993 \<le> 54" by (rule bit_length_le) simp
  moreover have "53 < bit_length 9007199254740993" by (rule bit_length_ge) simp
  ultimately show ?thesis by simp
qed

lemma round53_example: "round53 9007199254740993 = 9007199254740992"
  by (simp add: round53_def bit_length_example)

lemma int_of_truediv_example: "int_of_truediv 9007199254740993 1 = Inr 9007199254740992"
  by (simp add: int_of_truediv_def round53_example)

lemma guess_type_features: "guess_type ''m'' ''features'' n = Inr (FieldType ''u8'')"
  by (simp add: guess_type_def guess_type_in_def typemap_def partialtypemap_def startswith_def)

lemma typesize_u8: "typesize ''u8'' = Inr 1"
  by (simp add: typesize_def type2size_def)

lemma py_int_example: "py_int ''9007199254740993'' = Inr 9007199254740993"
  by (simp add: py_int_def strip_def lstrip_def rstrip_def py_isspace_def is_digit_def
      digit_val_def)

lemma size_type_example:
  "size_type True ''m'' ''features'' 1 ''9007199254740993''
     = Inr (FieldType ''u8'', 9007199254740992)"
  by (simp add: size_type_def py_int_example guess_type_features typesize_u8
      int_of_truediv_example)

lemma size_prefix_example:
  "size_prefix True ''9007199254740993'' None = Inr (False, None, 1, ''9007199254740993'')"
  by (simp add: size_prefix_def startswith_def)

lemma load_tlv_field_plain: "\<not> endswith name0 ''+'' \<Longrightarrow> load_tlv_field parse_tlv g name0 = Inr g"
  by (simp add: load_tlv_field_def)

lemma endswith_features: "\<not> endswith ''features'' ''+''"
  by (simp add: endswith_def)

text \<open>
  Claim C4, at the input that separates the code from the claim. In bolt mode the field
  \<open>features\<close> of message \<open>m\<close> with the byte count 9007199254740993 (which is
  \<open>2 ^ 53 + 1\<close>) gets the type \<open>u8\<close> of width 1; the width divides the byte count and the
  quotient is the byte count itself, but \<open>int(base_size / tsize)\<close> goes through a
  double and the field's element count is 9007199254740992.
\<close>

theorem field_init_bolt_count_rounded:
  "Field_init True parse_tlv g ''m'' ''features'' ''9007199254740993'' [] None
     = Inr (\<lparr>f_message = ''m'', f_comments = [], f_name = ''features'', is_len_var = False,
             lenvar = None, num_elems = 9007199254740992, optional = False,
             f_is_tlv = False, fieldtype = FieldType ''u8'', lenvar_for = None\<rparr>, g)
   \<and> typesize ''u8'' = Inr 1
   \<and> (9007199254740993 :: int) mod 1 = 0
   \<and> (9007199254740993 :: int) div 1 \<noteq> 9007199254740992"
  unfolding Field_init_def Let_def
  by (simp add: load_tlv_field_plain endswith_features size_prefix_example size_type_example
      typesize_u8)

subsection \<open>A bare length variable in bolt mode\<close>

lemma py_int_one: "py_int ''1'' = Inr 1"
  by (simp add: py_int_def strip_def lstrip_def rstrip_def py_isspace_def is_digit_def
      digit_val_def)


lemma int_of_truediv_one: "int_of_truediv 1 1 = Inr 1"
  using int_of_truediv_small [of 1 1] by simp

lemma size_type_one_ok:
  assumes "guess_type message nm 1 = Inr ft" and "typesize (tname ft) = Inr 1"
  shows "size_type True message nm elems ''1'' = Inr (ft, 1)"
  using assms by (simp add: size_type_def py_int_one int_of_truediv_one)





subsection \<open>Adding a length-prefixed field to a message\<close>

lemma size_prefix_exclusive:
  "size_prefix bolt s prevname = Inr (opt, lv, n, s') \<Longrightarrow> \<not> (opt \<and> lv \<noteq> None)"
  by (auto simp: size_prefix_def Let_def split: if_splits sum.splits)

lemma Field_init_exclusive:
  assumes "Field_init bolt parse_tlv g message name0 size_tok comments prevname = Inr (f, g')"
  shows "\<not> (optional f \<and> lenvar f \<noteq> None)"
proof -
  from assms obtain opt lv n s' where sp: "size_prefix bolt size_tok prevname = Inr (opt, lv, n, s')"
    and "optional f = opt" "lenvar f = lv"
    unfolding Field_init_def Let_def by (auto split: sum.splits)
  with size_prefix_exclusive [OF sp] show ?thesis by simp
qed

lemma checkLenField_loop_unknown:
  assumes "\<forall>t \<in> set fs. Some (f_name t) \<noteq> lenvar field"
  shows "checkLenField_loop bolt field fs =
    Inl (ValueError (''Field '' @ f_name field @ '' unknown length variable ''
           @ str_opt (lenvar field)))"
  using assms by (induction fs) auto

lemma checkLenField_loop_first:
  assumes "i < length fs" and "Some (f_name (fs ! i)) = lenvar field"
    and "\<forall>j < i. Some (f_name (fs ! j)) \<noteq> lenvar field"
  shows "checkLenField_loop bolt field fs =
    (if tname (fieldtype (fs ! i)) \<noteq> ''u16'' \<and> bolt then
       Inl (ValueError (''Field '' @ f_name field @ '' has non-u16 length variable ''
              @ str_opt (lenvar field) @ '' (type '' @ tname (fieldtype (fs ! i)) @ '')''))
     else if is_array (fs ! i) \<or> needs_ptr_to_ptr (fs ! i) then
       Inl (ValueError (''Field '' @ f_name field @ '' has non-simple length variable ''
              @ str_opt (lenvar field)))
     else Inr (fs[i := (fs ! i)\<lparr>is_len_var := True,
                     lenvar_for := Some (f_name field, f_is_tlv field)\<rparr>]))"
  using assms
proof (induction fs arbitrary: i)
  case Nil
  then show ?case by simp
next
  case (Cons t ts)
  show ?case
  proof (cases i)
    case 0
    with Cons.prems show ?thesis by simp
  next
    case (Suc n)
    have nt: "Some (f_name t) \<noteq> lenvar field" using Cons.prems(3) Suc by force
    have "n < length ts" using Cons.prems Suc by simp
    moreover have "Some (f_name (ts ! n)) = lenvar field" using Cons.prems Suc by simp
    moreover have "\<forall>j < n. Some (f_name (ts ! j)) \<noteq> lenvar field"
    proof (intro allI impI)
      fix j assume "j < n"
      then have "Suc j < i" using Suc by simp
      then have "Some (f_name ((t # ts) ! Suc j)) \<noteq> lenvar field" using Cons.prems(3) by blast
      then show "Some (f_name (ts ! j)) \<noteq> lenvar field" by simp
    qed
    ultimately have IH: "checkLenField_loop bolt field ts =
    (if tname (fieldtype (ts ! n)) \<noteq> ''u16'' \<and> bolt then
       Inl (ValueError (''Field '' @ f_name field @ '' has non-u16 length variable ''
              @ str_opt (lenvar field) @ '' (type '' @ tname (fieldtype (ts ! n)) @ '')''))
     else if is_array (ts ! n) \<or> needs_ptr_to_ptr (ts ! n) then
       Inl (ValueError (''Field '' @ f_name field @ '' has non-simple length variable ''
              @ str_opt (lenvar field)))
     else Inr (ts[n := (ts ! n)\<lparr>is_len_var := True,
                     lenvar_for := Some (f_name field, f_is_tlv field)\<rparr>]))"
      by (rule Cons.IH)
    show ?thesis using nt Suc by (simp add: IH)
  qed
qed

text \<open>
  Claim C3. Adding a constructed field that has a length variable fails with a
  \<open>ValueError\<close> when no field of the message has the variable's name, and when the first
  field of that name is an array, needs a pointer to a pointer (is itself of variable size
  or optional) or, in bolt mode, has a type other than \<open>u16\<close>; otherwise that field is
  marked as the length source (\<open>is_len_var\<close>, \<open>lenvar_for\<close>), the new field is appended
  and the message has variable-size fields.
\<close>

theorem addField_length_prefixed:
  assumes "Field_init bolt parse_tlv g message name0 size_tok comments prevname
             = Inr (field, g')"
    and "lenvar field = Some lv"
  shows "((\<forall>t \<in> set (m_fields self). f_name t \<noteq> lv)
            \<longrightarrow> (\<exists>msg. addField bolt self field = Inl (ValueError msg)))
       \<and> (\<forall>i. i < length (m_fields self) \<and> f_name (m_fields self ! i) = lv
               \<and> (\<forall>j < i. f_name (m_fields self ! j) \<noteq> lv)
            \<longrightarrow> (if (bolt \<and> tname (fieldtype (m_fields self ! i)) \<noteq> ''u16'')
                      \<or> is_array (m_fields self ! i) \<or> needs_ptr_to_ptr (m_fields self ! i)
                  then (\<exists>msg. addField bolt self field = Inl (ValueError msg))
                  else addField bolt self field
                     = Inr (self\<lparr>m_fields :=
                               (m_fields self)[i := (m_fields self ! i)\<lparr>is_len_var := True,
                                  lenvar_for := Some (f_name field, f_is_tlv field)\<rparr>]
                               @ [field],
                             has_variable_fields := True\<rparr>)))"
proof -
  have no: "\<not> optional field" using Field_init_exclusive [OF assms(1)] assms(2) by simp
  have vs: "is_variable_size field" using assms(2) by (simp add: is_variable_size_def)
  have add: "addField bolt self field =
    (case checkLenField_loop bolt field (m_fields self) of
          Inl e \<Rightarrow> Inl e
        | Inr fs \<Rightarrow> Inr (self\<lparr>m_fields := fs @ [field], has_variable_fields := True\<rparr>))"
    using no vs by (simp add: addField_def checkLenField_def)
  show ?thesis
  proof (intro conjI allI impI)
    assume "\<forall>t \<in> set (m_fields self). f_name t \<noteq> lv"
    then have "\<forall>t \<in> set (m_fields self). Some (f_name t) \<noteq> lenvar field"
      using assms(2) by simp
    from checkLenField_loop_unknown [OF this]
    show "\<exists>msg. addField bolt self field = Inl (ValueError msg)"
      by (simp add: add)
  next
    fix i
    assume h: "i < length (m_fields self) \<and> f_name (m_fields self ! i) = lv
               \<and> (\<forall>j < i. f_name (m_fields self ! j) \<noteq> lv)"
    then have "i < length (m_fields self)"
      "Some (f_name (m_fields self ! i)) = lenvar field"
      "\<forall>j < i. Some (f_name (m_fields self ! j)) \<noteq> lenvar field"
      using assms(2) by simp_all
    from checkLenField_loop_first [OF this, of bolt]
    show "if (bolt \<and> tname (fieldtype (m_fields self ! i)) \<noteq> ''u16'')
                      \<or> is_array (m_fields self ! i) \<or> needs_ptr_to_ptr (m_fields self ! i)
                  then (\<exists>msg. addField bolt self field = Inl (ValueError msg))
                  else addField bolt self field
                     = Inr (self\<lparr>m_fields :=
                               (m_fields self)[i := (m_fields self ! i)\<lparr>is_len_var := True,
                                  lenvar_for := Some (f_name field, f_is_tlv field)\<rparr>]
                               @ [field],
                             has_variable_fields := True\<rparr>)"
      by (auto simp: add)
  qed
qed


theorem addField_length_prefixed_witness:
  "Field_init True (\<lambda>n g. Inl RecursionError) \<lparr>tlv_fields = [], messages_with_option = []\<rparr>
       ''m'' ''data'' ''len*1'' [] (Some ''len'')
     = Inr (\<lparr>f_message = ''m'', f_comments = [], f_name = ''data'', is_len_var = False,
             lenvar = Some ''len'', num_elems = 1, optional = False, f_is_tlv = False,
             fieldtype = FieldType ''u8'', lenvar_for = None\<rparr>,
            \<lparr>tlv_fields = [], messages_with_option = []\<rparr>)
   \<and> addField True
        \<lparr>m_name = ''m'', m_enum = \<lparr>e_name = ''WIRE_M'', e_value = ''1''\<rparr>, m_comments = [],
         m_fields = [\<lparr>f_message = ''m'', f_comments = [], f_name = ''len'', is_len_var = False,
                      lenvar = None, num_elems = 1, optional = False, f_is_tlv = False,
                      fieldtype = FieldType ''u16'', lenvar_for = None\<rparr>],
         has_variable_fields = False, m_is_tlv = False\<rparr>
        \<lparr>f_message = ''m'', f_comments = [], f_name = ''data'', is_len_var = False,
         lenvar = Some ''len'', num_elems = 1, optional = False, f_is_tlv = False,
         fieldtype = FieldType ''u8'', lenvar_for = None\<rparr>
     = Inr \<lparr>m_name = ''m'', m_enum = \<lparr>e_name = ''WIRE_M'', e_value = ''1''\<rparr>, m_comments = [],
            m_fields = [\<lparr>f_message = ''m'', f_comments = [], f_name = ''len'', is_len_var = True,
                         lenvar = None, num_elems = 1, optional = False, f_is_tlv = False,
                         fieldtype = FieldType ''u16'', lenvar_for = Some (''data'', False)\<rparr>,
                        \<lparr>f_message = ''m'', f_comments = [], f_name = ''data'',
                         is_len_var = False, lenvar = Some ''len'', num_elems = 1,
                         optional = False, f_is_tlv = False, fieldtype = FieldType ''u8'',
                         lenvar_for = None\<rparr>],
            has_variable_fields = True, m_is_tlv = False\<rparr>
   \<and> (\<exists>msg. addField True
        \<lparr>m_name = ''m'', m_enum = \<lparr>e_name = ''WIRE_M'', e_value = ''1''\<rparr>, m_comments = [],
         m_fields = [], has_variable_fields = False, m_is_tlv = False\<rparr>
        \<lparr>f_message = ''m'', f_comments = [], f_name = ''data'', is_len_var = False,
         lenvar = Some ''len'', num_elems = 1, optional = False, f_is_tlv = False,
         fieldtype = FieldType ''u8'', lenvar_for = None\<rparr> = Inl (ValueError msg))"
proof -
  let ?g = "\<lparr>tlv_fields = [], messages_with_option = []\<rparr>"
  let ?P = "\<lambda>(n::string) (g::globals). (Inl RecursionError :: error + (Message list \<times> globals))"
  let ?field = "\<lparr>f_message = ''m'', f_comments = [], f_name = ''data'', is_len_var = False,
         lenvar = Some ''len'', num_elems = 1, optional = False, f_is_tlv = False,
         fieldtype = FieldType ''u8'', lenvar_for = None\<rparr>"
  let ?len = "\<lparr>f_message = ''m'', f_comments = [], f_name = ''len'', is_len_var = False,
                      lenvar = None, num_elems = 1, optional = False, f_is_tlv = False,
                      fieldtype = FieldType ''u16'', lenvar_for = None\<rparr>"
  let ?self = "\<lambda>fs. \<lparr>m_name = ''m'', m_enum = \<lparr>e_name = ''WIRE_M'', e_value = ''1''\<rparr>,
         m_comments = [], m_fields = fs, has_variable_fields = False, m_is_tlv = False\<rparr>"
  have sp: "size_prefix True ''len*1'' (Some ''len'') = Inr (False, Some ''len'', 1, ''1'')"
    by (simp add: size_prefix_def startswith_def)
  have gt: "guess_type ''m'' ''data'' 1 = Inr (FieldType ''u8'')"
    by (simp add: guess_type_def guess_type_in_def typemap_def partialtypemap_def
        sizetypemap_def startswith_def)
  have e: "\<not> endswith ''data'' ''+''" by (simp add: endswith_def)
  have st: "size_type True ''m'' ''data'' 1 ''1'' = Inr (FieldType ''u8'', 1)"
    by (rule size_type_one_ok [OF gt]) (simp add: typesize_u8)
  have init: "Field_init True ?P ?g ''m'' ''data'' ''len*1'' [] (Some ''len'') = Inr (?field, ?g)"
    unfolding Field_init_def Let_def
    by (simp add: load_tlv_field_plain e sp st)
  have lv: "lenvar ?field = Some ''len''" by simp
  have simple: "\<not> is_array ?len" "\<not> needs_ptr_to_ptr ?len"
    by (simp_all add: is_array_def is_padding_def startswith_def needs_ptr_to_ptr_def
        is_variable_size_def)
  note t1 = addField_length_prefixed [OF init lv, where self = "?self [?len]"]
  note t2 = addField_length_prefixed [OF init lv, where self = "?self []"]
  from t1 have "addField True (?self [?len]) ?field
     = Inr ((?self [?len])\<lparr>m_fields := [?len\<lparr>is_len_var := True,
               lenvar_for := Some (''data'', False)\<rparr>, ?field], has_variable_fields := True\<rparr>)"
    using simple by simp
  moreover from t2 have "\<exists>msg. addField True (?self []) ?field = Inl (ValueError msg)"
    by simp
  ultimately show ?thesis using init by simp
qed

end
